theory Spec2Isabelle
  imports Main "HOL-Library.Sublist"
begin

section \<open>Python values used by the payment service module\<close>

text \<open>
  The module \<^verbatim>\<open>modules/s3/s3payments/base.py\<close> works on database rows and request
  objects whose fields are either a value or \<^verbatim>\<open>None\<close>. A field that may be
  \<^verbatim>\<open>None\<close> is an \<open>option\<close>; the truth test \<^verbatim>\<open>if x\<close> / \<^verbatim>\<open>not x\<close> of a
  string-or-None value is \<open>truthy\<close>: \<^verbatim>\<open>None\<close> and the empty string are false.
\<close>

type_synonym datetime = int

definition truthy :: "string option \<Rightarrow> bool" where
  "truthy s = (case s of None \<Rightarrow> False | Some x \<Rightarrow> x \<noteq> [])"

text \<open>Decimal rendering of an integer, as \<^verbatim>\<open>"%s" % n\<close> does for a record id.\<close>

definition digit_char :: "nat \<Rightarrow> char" where
  "digit_char n = ''0123456789'' ! n"

fun str_nat :: "nat \<Rightarrow> string" where
  "str_nat n = (if n < 10 then [digit_char n] else str_nat (n div 10) @ [digit_char (n mod 10)])"

declare str_nat.simps [simp del]

definition str_int :: "int \<Rightarrow> string" where
  "str_int i = (if i < 0 then CHR ''-'' # str_nat (nat (- i)) else str_nat (nat i))"

section \<open>S3PaymentLog: the log writer\<close>

text \<open>
  \<^verbatim>\<open>S3PaymentLog.write\<close> (here \<open>S3PaymentLog_write\<close>) inserts a row into the table \<^verbatim>\<open>fin_payment_log\<close> and, for
  the results ERROR and FATAL, also calls \<^verbatim>\<open>current.log.error\<close>. The state it acts on
  is the list of rows of the table (in insertion order) and the list of messages handed
  to \<^verbatim>\<open>current.log.error\<close>. The clock \<^verbatim>\<open>datetime.datetime.utcnow()\<close> is a parameter.
\<close>

record log_entry =
  log_date :: datetime
  log_service_id :: int
  log_action :: string
  log_result :: string
  log_reason :: "string option"

record log_state =
  fin_payment_log :: "log_entry list"
  log_error :: "string list"

text \<open>Lines 193-197: the message handed to \<^verbatim>\<open>current.log.error\<close>.\<close>

definition failure_msg :: "string \<Rightarrow> string option \<Rightarrow> string" where
  "failure_msg action reason =
     (if truthy reason
      then [CHR 0x27] @ action @ [CHR 0x27] @ '' failed ['' @ the reason @ '']''
      else [CHR 0x27] @ action @ [CHR 0x27] @ '' failed'')"

definition failure_line :: "int \<Rightarrow> string \<Rightarrow> string option \<Rightarrow> string" where
  "failure_line service_id action reason =
     ''Payment Service #'' @ str_int service_id @ '': '' @ failure_msg action reason"

definition S3PaymentLog_write ::
  "int \<Rightarrow> datetime \<Rightarrow> string option \<Rightarrow> string option \<Rightarrow> string option \<Rightarrow> log_state \<Rightarrow> log_state"
where
  "S3PaymentLog_write service_id utcnow action result reason st =
     (if \<not> truthy action \<or> \<not> truthy result then st
      else
        let a = the action;
            res = the result;
            st1 = st\<lparr>fin_payment_log := fin_payment_log st @
                    [\<lparr>log_date = utcnow, log_service_id = service_id, log_action = a,
                      log_result = res, log_reason = reason\<rparr>]\<rparr>
        in if res = ''ERROR'' \<or> res = ''FATAL''
           then st1\<lparr>log_error := log_error st1 @ [failure_line service_id a reason]\<rparr>
           else st1)"

text \<open>The shortcuts \<^verbatim>\<open>info\<close>, \<^verbatim>\<open>success\<close>, \<^verbatim>\<open>warning\<close>, \<^verbatim>\<open>error\<close>, \<^verbatim>\<open>fatal\<close>.\<close>

definition log_info :: "int \<Rightarrow> datetime \<Rightarrow> string option \<Rightarrow> string option \<Rightarrow> log_state \<Rightarrow> log_state" where
  "log_info service_id utcnow action reason = S3PaymentLog_write service_id utcnow action (Some ''INFO'') reason"

definition log_success :: "int \<Rightarrow> datetime \<Rightarrow> string option \<Rightarrow> string option \<Rightarrow> log_state \<Rightarrow> log_state" where
  "log_success service_id utcnow action reason = S3PaymentLog_write service_id utcnow action (Some ''SUCCESS'') reason"

definition log_warning :: "int \<Rightarrow> datetime \<Rightarrow> string option \<Rightarrow> string option \<Rightarrow> log_state \<Rightarrow> log_state" where
  "log_warning service_id utcnow action reason = S3PaymentLog_write service_id utcnow action (Some ''WARNING'') reason"

definition log_err :: "int \<Rightarrow> datetime \<Rightarrow> string option \<Rightarrow> string option \<Rightarrow> log_state \<Rightarrow> log_state" where
  "log_err service_id utcnow action reason = S3PaymentLog_write service_id utcnow action (Some ''ERROR'') reason"

definition log_fatal :: "int \<Rightarrow> datetime \<Rightarrow> string option \<Rightarrow> string option \<Rightarrow> log_state \<Rightarrow> log_state" where
  "log_fatal service_id utcnow action reason = S3PaymentLog_write service_id utcnow action (Some ''FATAL'') reason"

section \<open>Requests and the default reference check\<close>

text \<open>
  A query variable of \<^verbatim>\<open>r.get_vars\<close> is a string, or a list of strings when the
  parameter is repeated in the URL; \<^verbatim>\<open>get_vars.get(k)\<close> is \<^verbatim>\<open>None\<close> for a missing key.
\<close>

datatype qvalue = QStr string | QList "string list"

record subscription_row =
  sub_id :: int
  sub_service_id :: "int option"
  sub_refno :: "string option"

record S3Request =
  r_http :: string
  r_method :: "string option"
  r_record :: "subscription_row option"
  get_vars :: "string \<rightharpoonup> qvalue"

definition verify_reference :: "S3Request \<Rightarrow> bool" where
  "verify_reference r =
     (case r_record r of
        None \<Rightarrow> False
      | Some record \<Rightarrow>
          if \<not> truthy (sub_refno record) then False
          else get_vars r ''subscription_id'' = Some (QStr (the (sub_refno record))))"

section \<open>Exceptions, adapters and the adapter factory\<close>

text \<open>
  Exceptions are values: a function that may raise returns \<open>pyexc + 'a\<close>, with \<open>Inl\<close>
  the exception. \<open>HTTP status message\<close> is what \<^verbatim>\<open>r.error(status, message)\<close> raises.
\<close>

datatype pyexc =
    HTTP nat string
  | NotImplementedError
  | KeyError string
  | ValueError string
  | OtherException string

text \<open>The row of \<^verbatim>\<open>fin_payment_service\<close> and the adapter instance built from it.\<close>

record service_row =
  row_id :: int
  row_api_type :: "string option"
  row_base_url :: "string option"
  row_use_proxy :: bool
  row_proxy :: "string option"
  row_username :: "string option"
  row_password :: "string option"
  row_token_type :: "string option"
  row_access_token :: "string option"
  row_token_expiry_date :: "datetime option"

record S3PaymentService =
  service_id :: int
  base_url :: "string option"
  use_proxy :: bool
  proxy :: "string option"
  username :: "string option"
  password :: "string option"
  token_type :: "string option"
  access_token :: "string option"
  token_expiry_date :: "datetime option"

definition init :: "service_row \<Rightarrow> S3PaymentService" where
  "init row =
     \<lparr>service_id = row_id row, base_url = row_base_url row, use_proxy = row_use_proxy row,
      proxy = row_proxy row, username = row_username row, password = row_password row,
      token_type = row_token_type row, access_token = row_access_token row,
      token_expiry_date = row_token_expiry_date row\<rparr>"

text \<open>
  The API functions are implemented by subclasses; a class is the record of its methods.
  A method gets the instance (and the database \<open>'db\<close> where it reads or updates it) and
  returns what the Python method returns or raises, with the instance or database as it
  leaves them. \<open>base_class\<close> is \<^verbatim>\<open>S3PaymentService\<close> itself, whose API functions raise
  \<^verbatim>\<open>NotImplementedError\<close> and whose reference check is \<open>verify_reference\<close>.
\<close>

record 'db adapter_class =
  get_access_token :: "S3PaymentService \<Rightarrow> (pyexc + string option) \<times> S3PaymentService"
  check_subscription :: "S3PaymentService \<Rightarrow> 'db \<Rightarrow> int \<Rightarrow> (pyexc + string option) \<times> 'db"
  cancel_subscription :: "S3PaymentService \<Rightarrow> 'db \<Rightarrow> int \<Rightarrow> (pyexc + bool) \<times> 'db"
  cls_verify_reference :: "S3Request \<Rightarrow> bool"

definition base_class :: "'db adapter_class" where
  "base_class =
     \<lparr>get_access_token = (\<lambda>self. (Inl NotImplementedError, self)),
      check_subscription = (\<lambda>self db subscription_id. (Inl NotImplementedError, db)),
      cancel_subscription = (\<lambda>self db subscription_id. (Inl NotImplementedError, db)),
      cls_verify_reference = verify_reference\<rparr>"

text \<open>
  What the module takes from outside: the query for the service configuration
  (\<^verbatim>\<open>resource.select(..., limit=1)\<close>), the class \<^verbatim>\<open>PayPalAdapter\<close> of \<^verbatim>\<open>.paypal\<close>, the
  translator \<^verbatim>\<open>current.T\<close> and \<^verbatim>\<open>r.url(method="")\<close>.
\<close>

record 'db collaborators =
  select_service :: "'db \<Rightarrow> int \<Rightarrow> service_row option"
  PayPalAdapter :: "'db adapter_class"
  T :: "string \<Rightarrow> string"
  r_url :: "S3Request \<Rightarrow> string"

definition adapters :: "'db collaborators \<Rightarrow> string option \<Rightarrow> 'db adapter_class option" where
  "adapters env api_type = (if api_type = Some ''PAYPAL'' then Some (PayPalAdapter env) else None)"

definition str_opt :: "string option \<Rightarrow> string" where
  "str_opt s = (case s of None \<Rightarrow> ''None'' | Some x \<Rightarrow> x)"

definition adapter ::
  "'db collaborators \<Rightarrow> 'db \<Rightarrow> int \<Rightarrow> pyexc + ('db adapter_class \<times> S3PaymentService)"
where
  "adapter env db sid =
     (case select_service env db sid of
        None \<Rightarrow> Inl (KeyError (''Payment service configuration #'' @ str_int sid @ '' not found''))
      | Some row \<Rightarrow>
          (case adapters env (row_api_type row) of
             None \<Rightarrow> Inl (ValueError (''Invalid API type: '' @ str_opt (row_api_type row)))
           | Some cls \<Rightarrow> Inr (cls, init row)))"

section \<open>S3Payments.confirm_subscription\<close>

text \<open>
  The method sets one of \<^verbatim>\<open>current.response.confirmation\<close>, \<^verbatim>\<open>.warning\<close> and
  \<^verbatim>\<open>.error\<close>; it changes the database only through \<^verbatim>\<open>check_subscription\<close>. When it
  returns, it returns the empty dict, with \<^verbatim>\<open>r.http\<close> set to POST and \<^verbatim>\<open>self.next\<close> set.
\<close>

record response =
  confirmation :: "string option"
  warning :: "string option"
  error :: "string option"

record 'db world =
  current_response :: response
  current_db :: "'db"

record handled =
  out_dict :: "(string \<times> string) list"
  out_request :: S3Request
  out_next :: string

fun key_or_value_error :: "pyexc \<Rightarrow> bool" where
  "key_or_value_error (KeyError m) = True"
| "key_or_value_error (ValueError m) = True"
| "key_or_value_error e = False"

definition int_truthy :: "int option \<Rightarrow> bool" where
  "int_truthy i = (case i of None \<Rightarrow> False | Some n \<Rightarrow> n \<noteq> 0)"

definition set_outcome :: "(string \<Rightarrow> string) \<Rightarrow> string option \<Rightarrow> response \<Rightarrow> response" where
  "set_outcome t status resp =
     (if status = Some ''ACTIVE'' then resp\<lparr>confirmation := Some (t ''Subscription activated'')\<rparr>
      else if status = Some ''APPROVED'' then resp
      else if truthy status then resp\<lparr>warning := Some (t ''Subscription inactive'')\<rparr>
      else resp\<lparr>error := Some (t ''Could not verify subscription status'')\<rparr>)"

definition confirm_subscription ::
  "'db collaborators \<Rightarrow> S3Request \<Rightarrow> 'db world \<Rightarrow> (pyexc + handled) \<times> 'db world"
where
  "confirm_subscription env r w =
     (case r_record r of
        None \<Rightarrow> (Inl (HTTP 405 ''Invalid record''), w)
      | Some record \<Rightarrow>
          if \<not> int_truthy (sub_service_id record) then (Inl (HTTP 405 ''Invalid record''), w)
          else
            (case adapter env (current_db w) (the (sub_service_id record)) of
               Inl e \<Rightarrow>
                 if key_or_value_error e then (Inl (HTTP 405 ''Invalid payment service''), w)
                 else (Inl e, w)
             | Inr (cls, self) \<Rightarrow>
                 if \<not> cls_verify_reference cls r then (Inl (HTTP 405 ''Invalid reference''), w)
                 else
                   (case check_subscription cls self (current_db w) (sub_id record) of
                      (Inl e, db') \<Rightarrow> (Inl e, w\<lparr>current_db := db'\<rparr>)
                    | (Inr status, db') \<Rightarrow>
                        let r' = r\<lparr>r_http := ''POST''\<rparr>
                        in (Inr \<lparr>out_dict = [], out_request = r', out_next = r_url env r'\<rparr>,
                            \<lparr>current_response = set_outcome (T env) status (current_response w),
                             current_db = db'\<rparr>))))"

section \<open>S3PaymentService.http and its opener\<close>

text \<open>
  Python objects that travel through \<^verbatim>\<open>http\<close>: the request data, the decoded output and
  the error. \<^verbatim>\<open>json.load\<close> yields \<^verbatim>\<open>None\<close> for the JSON text \<^verbatim>\<open>null\<close>, which is
  \<open>PyNone\<close>, the same value as an output that was never set.

  A response object (\<^verbatim>\<open>f\<close>, or the \<^verbatim>\<open>HTTPError\<close> \<^verbatim>\<open>e\<close>) has a status code and a body that
  is still to be read: \<open>Body b\<close> when \<^verbatim>\<open>read()\<close> returns the bytes \<open>b\<close>, \<open>ReadError x\<close>
  when \<^verbatim>\<open>read()\<close> raises \<open>x\<close> (the connection breaks while the body is read).
  \<open>PyResponse code body\<close> is the response object handed back unread, \<open>PyExc x\<close> an
  exception instance (\<^verbatim>\<open>sys.exc_info()[1]\<close>).
\<close>

datatype body_read = Body string | ReadError pyexc

datatype pyval =
    PyNone
  | PyBool bool
  | PyInt int
  | PyStr string
  | PyList "pyval list"
  | PyDict "(string \<times> pyval) list"
  | PyResponse int body_read
  | PyExc pyexc

fun py_truthy :: "pyval \<Rightarrow> bool" where
  "py_truthy PyNone = False"
| "py_truthy (PyBool b) = b"
| "py_truthy (PyInt i) = (i \<noteq> 0)"
| "py_truthy (PyStr s) = (s \<noteq> [])"
| "py_truthy (PyList xs) = (xs \<noteq> [])"
| "py_truthy (PyDict kvs) = (kvs \<noteq> [])"
| "py_truthy (PyResponse code body) = True"
| "py_truthy (PyExc x) = True"

text \<open>The argument \<^verbatim>\<open>auth\<close>: \<^verbatim>\<open>False\<close>, \<^verbatim>\<open>True\<close> or a string.\<close>

datatype auth_arg = AuthBool bool | AuthStr string

fun auth_truthy :: "auth_arg \<Rightarrow> bool" where
  "auth_truthy (AuthBool b) = b"
| "auth_truthy (AuthStr s) = (s \<noteq> [])"

record urllib_request =
  req_url :: string
  req_method :: string
  req_headers :: "(string \<times> string) list"

datatype handler =
    ProxyHandler string string
  | HTTPBasicAuthHandler string string string

text \<open>
  \<open>addheaders = None\<close>: \<^verbatim>\<open>opener.addheaders\<close> was not assigned (the library's default
  stays).
\<close>

record opener_director =
  handlers :: "handler list"
  addheaders :: "(string \<times> string) list option"

text \<open>
  What \<^verbatim>\<open>opener.open(req, data=request_data)\<close> does: it returns a response, or raises
  \<^verbatim>\<open>HTTPError\<close> (itself a response, with a code and a body), \<^verbatim>\<open>URLError\<close> (with its
  \<^verbatim>\<open>reason\<close>) or another \<^verbatim>\<open>Exception\<close>.
\<close>

datatype open_outcome =
    Opened int body_read
  | HTTPError int body_read
  | URLError pyval
  | OtherError pyexc

text \<open>
  The library functions and the network are parameters, and each of them that can raise
  returns a sum: \<^verbatim>\<open>urlencode\<close>; the constructor \<^verbatim>\<open>urllib2.Request\<close> (\<open>Request_error url\<close>
  is what it raises for this URL, if anything: \<^verbatim>\<open>ValueError\<close> for a URL without a
  scheme); \<^verbatim>\<open>json.dumps(data).encode("utf-8")\<close>; \<^verbatim>\<open>s3_str(data).encode("utf-8")\<close>;
  \<^verbatim>\<open>s3_str\<close> on the bytes of a body; \<^verbatim>\<open>json.loads\<close> on the bytes of a body; the
  exceptions in the tuple \<^verbatim>\<open>JSONERRORS\<close> of \<^verbatim>\<open>s3validators\<close>; \<^verbatim>\<open>base64.b64encode\<close>
  followed by \<^verbatim>\<open>s3_str\<close> (ASCII, it does not raise); the scheme of the request's URL
  (\<^verbatim>\<open>req.get_type()\<close> or \<^verbatim>\<open>req.type\<close>); and \<^verbatim>\<open>opener.open\<close>.
\<close>

record http_lib =
  urlencode :: "(string \<times> string) list \<Rightarrow> pyexc + string"
  Request_error :: "string \<Rightarrow> pyexc option"
  json_dumps :: "pyval \<Rightarrow> pyexc + string"
  s3_str_data :: "pyval \<Rightarrow> pyexc + string"
  s3_str :: "string \<Rightarrow> pyexc + string"
  json_loads :: "string \<Rightarrow> pyexc + pyval"
  JSONERRORS :: "pyexc \<Rightarrow> bool"
  b64encode :: "string \<Rightarrow> string"
  req_type :: "string \<Rightarrow> pyexc + string"
  opener_open :: "opener_director \<Rightarrow> urllib_request \<Rightarrow> string option \<Rightarrow> open_outcome"

text \<open>
  The calls that leave the process, in the order they are made: a token refresh
  (\<^verbatim>\<open>self.get_access_token()\<close>) and the request itself.
\<close>

datatype event =
    GetAccessToken
  | Open opener_director urllib_request "string option"

definition rstrip_slash :: "string \<Rightarrow> string" where
  "rstrip_slash s = rev (dropWhile (\<lambda>c. c = CHR ''/'') (rev s))"

definition lstrip_slash :: "string \<Rightarrow> string" where
  "lstrip_slash s = dropWhile (\<lambda>c. c = CHR ''/'') s"

subsection \<open>The opener\<close>

text \<open>Lines 511-516: the proxy handler; \<^verbatim>\<open>req.get_type()\<close> may raise.\<close>

definition proxy_handlers :: "http_lib \<Rightarrow> S3PaymentService \<Rightarrow> urllib_request \<Rightarrow> pyexc + handler list" where
  "proxy_handlers lib self req =
     (if truthy (proxy self) \<and> use_proxy self
      then (case req_type lib (req_url req) of
              Inl x \<Rightarrow> Inl x
            | Inr protocol \<Rightarrow> Inr [ProxyHandler protocol (the (proxy self))])
      else Inr [])"

text \<open>
  Lines 545-561: the 401 handler, the opener and its headers. \<open>hs\<close> are the proxy
  handlers; \<open>self\<close> is the instance as it was on entry, since \<^verbatim>\<open>username\<close> and
  \<^verbatim>\<open>password\<close> are read before any token refresh.
\<close>

definition build_opener ::
  "handler list \<Rightarrow> S3PaymentService \<Rightarrow> urllib_request \<Rightarrow> auth_arg \<Rightarrow> (string \<times> string) list
     \<Rightarrow> opener_director"
where
  "build_opener hs self req auth hdrs =
     \<lparr>handlers =
        hs @
        (if auth_truthy auth \<and> truthy (username self) \<and> truthy (password self)
         then [HTTPBasicAuthHandler (req_url req) (the (username self)) (the (password self))]
         else []),
      addheaders = (if hdrs \<noteq> [] then Some hdrs else None)\<rparr>"

text \<open>\<^verbatim>\<open>self.token_type or "Bearer"\<close>\<close>

definition token_type_or_bearer :: "S3PaymentService \<Rightarrow> string" where
  "token_type_or_bearer self = (if truthy (token_type self) then the (token_type self) else ''Bearer'')"

definition token_header :: "string \<Rightarrow> string \<Rightarrow> string \<times> string" where
  "token_header ttype token = (''Authorization'', ttype @ '' '' @ token)"

text \<open>
  \<^verbatim>\<open>_http_opener\<close>. The result is the opener or the exception that leaves the method,
  the instance as \<^verbatim>\<open>get_access_token\<close> left it, and the events. Only
  \<^verbatim>\<open>NotImplementedError\<close> is caught around \<^verbatim>\<open>get_access_token\<close>.
\<close>

definition http_opener ::
  "http_lib \<Rightarrow> 'db adapter_class \<Rightarrow> datetime \<Rightarrow> S3PaymentService \<Rightarrow> urllib_request
     \<Rightarrow> (string \<times> string) list \<Rightarrow> auth_arg
     \<Rightarrow> (pyexc + opener_director) \<times> S3PaymentService \<times> event list"
where
  "http_opener lib cls utcnow self req headers auth =
     (case proxy_handlers lib self req of
        Inl x \<Rightarrow> (Inl x, self, [])
      | Inr hs \<Rightarrow>
          if auth = AuthStr ''Basic'' then
            (Inr (build_opener hs self req auth
                   (if truthy (username self) \<and> truthy (password self)
                    then headers @ [(''Authorization'', ''Basic '' @
                            b64encode lib (the (username self) @ '':'' @ the (password self)))]
                    else headers)),
             self, [])
          else if auth = AuthStr ''Token'' then
            let token = access_token self;
                ttype = token_type_or_bearer self;
                expiry_date = token_expiry_date self
            in if \<not> truthy token \<or> (expiry_date \<noteq> None \<and> the expiry_date \<le> utcnow) then
                 (case get_access_token cls self of
                    (Inl x, self') \<Rightarrow>
                      if x = NotImplementedError
                      then (Inr (build_opener hs self req auth headers), self', [GetAccessToken])
                      else (Inl x, self', [GetAccessToken])
                  | (Inr token', self') \<Rightarrow>
                      (Inr (build_opener hs self req auth
                             (if truthy token' then headers @ [token_header ttype (the token')]
                              else headers)),
                       self', [GetAccessToken]))
               else
                 (Inr (build_opener hs self req auth (headers @ [token_header ttype (the token)])),
                  self, [])
          else (Inr (build_opener hs self req auth headers), self, []))"

subsection \<open>The request\<close>

text \<open>Lines 418-422: the URL; \<^verbatim>\<open>urlencode\<close> may raise.\<close>

definition build_url ::
  "http_lib \<Rightarrow> string \<Rightarrow> string option \<Rightarrow> (string \<times> string) list \<Rightarrow> pyexc + string"
where
  "build_url lib url0 path args =
     (let url1 = rstrip_slash url0;
          url2 = (if truthy path then url1 @ ''/'' @ lstrip_slash (the path) else url1)
      in if args \<noteq> []
         then (case urlencode lib args of
                 Inl x \<Rightarrow> Inl x
               | Inr query \<Rightarrow> Inr (url2 @ ''?'' @ query))
         else Inr url2)"

text \<open>Lines 432-445: the request data and its content type; the encoder may raise.\<close>

definition encode_data ::
  "http_lib \<Rightarrow> string \<Rightarrow> pyval \<Rightarrow> string \<Rightarrow> pyexc + (string option \<times> (string \<times> string) list)"
where
  "encode_data lib method data encode =
     (if method = ''GET'' then Inr (None, [])
      else if py_truthy data then
        (if encode = ''json'' then
           (case json_dumps lib data of
              Inl x \<Rightarrow> Inl x
            | Inr b \<Rightarrow> Inr (Some b, [(''Content-Type'', ''application/json'')]))
         else if encode = ''text'' then
           (case s3_str_data lib data of
              Inl x \<Rightarrow> Inl x
            | Inr b \<Rightarrow> Inr (Some b, [(''Content-Type'', ''text/plain; charset=UTF-8'')]))
         else
           (case s3_str_data lib data of
              Inl x \<Rightarrow> Inl x
            | Inr b \<Rightarrow> Inr (Some b, [(''Content-Type'', ''application/octet-stream'')])))
      else Inr (None, []))"

text \<open>
  Lines 418-451, in the order of the source: the URL, the \<^verbatim>\<open>Request\<close> object, the data and
  its content type, the Accept header. The result is the request with its data, or the
  exception that leaves \<^verbatim>\<open>http\<close>: none of these lines is inside a \<^verbatim>\<open>try\<close>.
\<close>

definition make_request ::
  "http_lib \<Rightarrow> string \<Rightarrow> string \<Rightarrow> string option \<Rightarrow> (string \<times> string) list \<Rightarrow> pyval
     \<Rightarrow> string \<Rightarrow> string \<Rightarrow> pyexc + (urllib_request \<times> string option)"
where
  "make_request lib url0 method path args data encode decode =
     (case build_url lib url0 path args of
        Inl x \<Rightarrow> Inl x
      | Inr url \<Rightarrow>
          (case Request_error lib url of
             Some x \<Rightarrow> Inl x
           | None \<Rightarrow>
               (case encode_data lib method data encode of
                  Inl x \<Rightarrow> Inl x
                | Inr (request_data, content_type) \<Rightarrow>
                    Inr (\<lparr>req_url = url, req_method = method,
                          req_headers = content_type @
                            [if decode = ''json'' then (''Accept'', ''application/json'')
                             else (''Accept'', ''*/*'')]\<rparr>,
                         request_data))))"

subsection \<open>Running the request\<close>

text \<open>
  \<^verbatim>\<open>s3_str(x.read())\<close>: reading the body may raise, and so may decoding its bytes.
  \<^verbatim>\<open>json.load(f)\<close> reads the body and parses it; whatever it raises is caught at line
  478 only when it is one of \<^verbatim>\<open>JSONERRORS\<close>.
\<close>

definition read_str :: "http_lib \<Rightarrow> body_read \<Rightarrow> pyexc + string" where
  "read_str lib body = (case body of ReadError x \<Rightarrow> Inl x | Body b \<Rightarrow> s3_str lib b)"

definition json_load :: "http_lib \<Rightarrow> body_read \<Rightarrow> pyexc + pyval" where
  "json_load lib body = (case body of ReadError x \<Rightarrow> Inl x | Body b \<Rightarrow> json_loads lib b)"

text \<open>
  Lines 457-486: the outcome of \<^verbatim>\<open>opener.open\<close> as the triple (output, status, error),
  or the exception that leaves \<^verbatim>\<open>http\<close>. The \<^verbatim>\<open>except\<close> clauses cover \<^verbatim>\<open>opener.open\<close>
  only: \<^verbatim>\<open>e.read()\<close> at line 462 runs inside a handler, and the \<^verbatim>\<open>else\<close> block that
  decodes the response is not guarded but for \<^verbatim>\<open>JSONERRORS\<close> around \<^verbatim>\<open>json.load\<close>.
\<close>

definition run_result ::
  "http_lib \<Rightarrow> string \<Rightarrow> open_outcome \<Rightarrow> pyexc + pyval \<times> int option \<times> pyval"
where
  "run_result lib decode outcome =
     (case outcome of
        HTTPError code body \<Rightarrow>
          (case read_str lib body of
             Inl x \<Rightarrow> Inl x
           | Inr s \<Rightarrow> Inr (PyNone, Some code, PyStr s))
      | URLError reason \<Rightarrow>
          Inr (PyNone, None, if \<not> py_truthy reason then PyStr ''Unknown network error'' else reason)
      | OtherError x \<Rightarrow> Inr (PyNone, None, PyExc x)
      | Opened code body \<Rightarrow>
          if decode = ''json'' then
            (case json_load lib body of
               Inr v \<Rightarrow> Inr (v, Some code, PyNone)
             | Inl x \<Rightarrow> if JSONERRORS lib x then Inr (PyNone, Some code, PyExc x) else Inl x)
          else if decode = ''text'' then
            (case read_str lib body of
               Inl x \<Rightarrow> Inl x
             | Inr s \<Rightarrow> Inr (PyStr s, Some code, PyNone))
          else Inr (PyResponse code body, Some code, PyNone))"

text \<open>
  \<^verbatim>\<open>http\<close>. The result is the triple or the exception that leaves the method, the
  instance as the call left it, and the events of the call.
\<close>

definition http ::
  "http_lib \<Rightarrow> 'db adapter_class \<Rightarrow> datetime \<Rightarrow> S3PaymentService \<Rightarrow> string \<Rightarrow> string option
     \<Rightarrow> (string \<times> string) list \<Rightarrow> pyval \<Rightarrow> (string \<times> string) list \<Rightarrow> auth_arg \<Rightarrow> string
     \<Rightarrow> string
     \<Rightarrow> (pyexc + pyval \<times> int option \<times> pyval) \<times> S3PaymentService \<times> event list"
where
  "http lib cls utcnow self method path args data headers auth encode decode =
     (if \<not> truthy (base_url self)
      then (Inr (PyNone, None, PyStr ''No base URL set''), self, [])
      else
        (case make_request lib (the (base_url self)) method path args data encode decode of
           Inl x \<Rightarrow> (Inl x, self, [])
         | Inr (req, request_data) \<Rightarrow>
             (case http_opener lib cls utcnow self req headers auth of
                (Inl x, self', tr) \<Rightarrow> (Inl x, self', tr)
              | (Inr opener, self', tr) \<Rightarrow>
                  (run_result lib decode (opener_open lib opener req request_data),
                   self', tr @ [Open opener req request_data]))))"

section \<open>Observations and concrete inputs\<close>

text \<open>The number of token refreshes among the events of a call.\<close>

definition refresh_count :: "event list \<Rightarrow> nat" where
  "refresh_count tr = length (filter (\<lambda>ev. ev = GetAccessToken) tr)"

text \<open>
  Concrete inputs for the examples below: a service with a base URL and the token T1
  that expires at 100, library functions that only parse the JSON text \<^verbatim>\<open>null\<close>, a
  provider that answers every request with the status 200 and the body \<^verbatim>\<open>null\<close>, and a
  PayPal adapter class whose \<^verbatim>\<open>check_subscription\<close> reports a fixed status and whose
  \<^verbatim>\<open>get_access_token\<close> returns \<^verbatim>\<open>None\<close>.
\<close>

definition example_service :: S3PaymentService where
  "example_service =
     \<lparr>service_id = 7, base_url = Some ''https://api.example.com/'', use_proxy = False,
      proxy = None, username = None, password = None, token_type = None,
      access_token = Some ''T1'', token_expiry_date = Some 100\<rparr>"

definition example_lib :: http_lib where
  "example_lib =
     \<lparr>urlencode = (\<lambda>args. Inr (concat (map (\<lambda>(k, v). k @ ''='' @ v) args))),
      Request_error =
        (\<lambda>url. if CHR '':'' \<in> set url then None else Some (ValueError ''unknown url type'')),
      json_dumps = (\<lambda>v. Inr ''{}''),
      s3_str_data = (\<lambda>v. Inr []),
      s3_str = (\<lambda>b. Inr b),
      json_loads = (\<lambda>b. if b = ''null'' then Inr PyNone else Inl (ValueError ''JSONDecodeError'')),
      JSONERRORS = key_or_value_error,
      b64encode = (\<lambda>b. b),
      req_type = (\<lambda>url. Inr (takeWhile (\<lambda>c. c \<noteq> CHR '':'') url)),
      opener_open = (\<lambda>opener req request_data. Opened 200 (Body ''null''))\<rparr>"

text \<open>The same library over a provider whose \<^verbatim>\<open>opener.open\<close> has a given outcome.\<close>

definition example_lib_with :: "open_outcome \<Rightarrow> http_lib" where
  "example_lib_with outcome = example_lib\<lparr>opener_open := (\<lambda>opener req request_data. outcome)\<rparr>"

definition example_class :: "string option \<Rightarrow> unit adapter_class" where
  "example_class status =
     \<lparr>get_access_token = (\<lambda>self. (Inr None, self)),
      check_subscription = (\<lambda>self db subscription_id. (Inr status, db)),
      cancel_subscription = (\<lambda>self db subscription_id. (Inr True, db)),
      cls_verify_reference = verify_reference\<rparr>"

text \<open>
  Two more adapter classes: one whose \<^verbatim>\<open>get_access_token\<close> stores and returns the new
  token T2, valid until 3700, and one whose \<^verbatim>\<open>get_access_token\<close> raises.
\<close>

definition refreshing_class :: "unit adapter_class" where
  "refreshing_class =
     (example_class None)
       \<lparr>get_access_token :=
          (\<lambda>self. (Inr (Some ''T2''),
                   self\<lparr>access_token := Some ''T2'', token_expiry_date := Some 3700\<rparr>))\<rparr>"

definition raising_class :: "unit adapter_class" where
  "raising_class =
     (example_class None)
       \<lparr>get_access_token := (\<lambda>self. (Inl (OtherException ''token request failed''), self))\<rparr>"

definition example_row :: service_row where
  "example_row =
     \<lparr>row_id = 7, row_api_type = Some ''PAYPAL'', row_base_url = Some ''https://api.example.com/'',
      row_use_proxy = False, row_proxy = None, row_username = None, row_password = None,
      row_token_type = None, row_access_token = Some ''T1'', row_token_expiry_date = Some 100\<rparr>"

definition example_env :: "string option \<Rightarrow> unit collaborators" where
  "example_env status =
     \<lparr>select_service = (\<lambda>db sid. if sid = 7 then Some example_row else None),
      PayPalAdapter = example_class status,
      T = (\<lambda>s. s),
      r_url = (\<lambda>r. ''/fin/subscription'')\<rparr>"

definition example_request :: S3Request where
  "example_request =
     \<lparr>r_http = ''GET'', r_method = Some ''confirm'',
      r_record = Some \<lparr>sub_id = 3, sub_service_id = Some 7, sub_refno = Some ''I-42''\<rparr>,
      get_vars = [''subscription_id'' \<mapsto> QStr ''I-42'']\<rparr>"

definition example_world :: "unit world" where
  "example_world =
     \<lparr>current_response = \<lparr>confirmation = None, warning = None, error = None\<rparr>,
      current_db = ()\<rparr>"

definition example_log :: log_state where
  "example_log = \<lparr>fin_payment_log = [], log_error = []\<rparr>"

section \<open>The log writer\<close>

lemma truthy_simps [simp]:
  "truthy None = False" "truthy (Some x) = (x \<noteq> [])"
  by (simp_all add: truthy_def)

lemma sublist_mid: "sublist xs (ps @ xs @ ss)"
  unfolding sublist_def by blast

lemma failure_line_contains_id: "sublist (str_int sid) (failure_line sid a reason)"
  unfolding failure_line_def by (rule sublist_mid)

lemma failure_msg_contains_action: "sublist a (failure_msg a reason)"
proof -
  have "\<exists>ss. failure_msg a reason = [CHR 0x27] @ a @ ss"
    by (simp add: failure_msg_def)
  then show ?thesis
    unfolding sublist_def by blast
qed

lemma failure_line_contains_action: "sublist a (failure_line sid a reason)"
proof -
  obtain ps ss where "failure_msg a reason = ps @ a @ ss"
    using failure_msg_contains_action [of a reason] unfolding sublist_def by blast
  then have "failure_line sid a reason = (''Payment Service #'' @ str_int sid @ '': '' @ ps) @ a @ ss"
    by (simp add: failure_line_def)
  then show ?thesis
    unfolding sublist_def by blast
qed

lemma failure_line_contains_reason: "sublist rs (failure_line sid a (Some rs))"
proof (cases "rs = []")
  case True
  then show ?thesis by simp
next
  case False
  then have "failure_line sid a (Some rs) =
      (''Payment Service #'' @ str_int sid @ '': '' @ [CHR 0x27] @ a @ [CHR 0x27] @ '' failed ['') @ rs @ '']''"
    by (simp add: failure_line_def failure_msg_def)
  then show ?thesis
    unfolding sublist_def by blast
qed

text \<open>
  C8. \<^verbatim>\<open>write(action, result, reason)\<close> with an empty or absent action, or an empty or
  absent result, does nothing: the state comes back as it was, so no row is added to
  \<^verbatim>\<open>fin_payment_log\<close> and no message reaches \<^verbatim>\<open>current.log.error\<close>.
\<close>

theorem write_noop_on_empty_action_or_result:
  "\<not> truthy action \<or> \<not> truthy result \<Longrightarrow>
     S3PaymentLog_write sid utcnow action result reason st = st"
  by (simp add: S3PaymentLog_write_def)

theorem write_noop_on_empty_action_or_result_witness:
  "\<not> truthy None \<and> \<not> truthy (Some [])
   \<and> S3PaymentLog_write 7 0 None (Some ''ERROR'') (Some ''x'') example_log = example_log
   \<and> fin_payment_log (S3PaymentLog_write 7 0 (Some ''cancel'') (Some []) None example_log) = []
   \<and> log_error (S3PaymentLog_write 7 0 (Some []) None None example_log) = []"
  using write_noop_on_empty_action_or_result [of None "Some ''ERROR''" 7 0 "Some ''x''" example_log]
    write_noop_on_empty_action_or_result [of "Some ''cancel''" "Some []" 7 0 None example_log]
    write_noop_on_empty_action_or_result [of "Some []" None 7 0 None example_log]
  by (simp add: example_log_def)

text \<open>
  C4. \<^verbatim>\<open>write(action, result, reason)\<close> with a non-empty action: for the results ERROR
  and FATAL one row is added to \<^verbatim>\<open>fin_payment_log\<close> and one message is handed to
  \<^verbatim>\<open>current.log.error\<close>, and that message contains the service id, the action and the
  reason (when there is one); for the results INFO, SUCCESS and WARNING one row is added
  and the messages of \<^verbatim>\<open>current.log.error\<close> stay as they were.
\<close>

theorem write_entry_and_failure_line:
  assumes "action = Some a" and "a \<noteq> []"
  shows
    "(result = Some ''ERROR'' \<or> result = Some ''FATAL'' \<longrightarrow>
        fin_payment_log (S3PaymentLog_write sid utcnow action result reason st) =
          fin_payment_log st @
            [\<lparr>log_date = utcnow, log_service_id = sid, log_action = a,
              log_result = the result, log_reason = reason\<rparr>]
        \<and> log_error (S3PaymentLog_write sid utcnow action result reason st) =
            log_error st @ [failure_line sid a reason]
        \<and> sublist (str_int sid) (failure_line sid a reason)
        \<and> sublist a (failure_line sid a reason)
        \<and> (\<forall>rs. reason = Some rs \<longrightarrow> sublist rs (failure_line sid a reason)))
     \<and> (result = Some ''INFO'' \<or> result = Some ''SUCCESS'' \<or> result = Some ''WARNING'' \<longrightarrow>
        fin_payment_log (S3PaymentLog_write sid utcnow action result reason st) =
          fin_payment_log st @
            [\<lparr>log_date = utcnow, log_service_id = sid, log_action = a,
              log_result = the result, log_reason = reason\<rparr>]
        \<and> log_error (S3PaymentLog_write sid utcnow action result reason st) = log_error st)"
proof (intro conjI impI)
  assume r: "result = Some ''ERROR'' \<or> result = Some ''FATAL''"
  with assms show "fin_payment_log (S3PaymentLog_write sid utcnow action result reason st) =
      fin_payment_log st @
        [\<lparr>log_date = utcnow, log_service_id = sid, log_action = a,
          log_result = the result, log_reason = reason\<rparr>]"
    by (auto simp: S3PaymentLog_write_def Let_def)
  from assms r show "log_error (S3PaymentLog_write sid utcnow action result reason st) =
      log_error st @ [failure_line sid a reason]"
    by (auto simp: S3PaymentLog_write_def Let_def)
  show "sublist (str_int sid) (failure_line sid a reason)"
    by (rule failure_line_contains_id)
  show "sublist a (failure_line sid a reason)"
    by (rule failure_line_contains_action)
  show "\<forall>rs. reason = Some rs \<longrightarrow> sublist rs (failure_line sid a reason)"
    by (simp add: failure_line_contains_reason)
next
  assume r: "result = Some ''INFO'' \<or> result = Some ''SUCCESS'' \<or> result = Some ''WARNING''"
  with assms show "fin_payment_log (S3PaymentLog_write sid utcnow action result reason st) =
      fin_payment_log st @
        [\<lparr>log_date = utcnow, log_service_id = sid, log_action = a,
          log_result = the result, log_reason = reason\<rparr>]"
    by (auto simp: S3PaymentLog_write_def Let_def)
  from assms r show "log_error (S3PaymentLog_write sid utcnow action result reason st) = log_error st"
    by (auto simp: S3PaymentLog_write_def Let_def)
qed

lemma str_int_7: "str_int 7 = ''7''"
  by (simp add: str_int_def str_nat.simps digit_char_def)

theorem write_entry_and_failure_line_witness:
  "fin_payment_log (S3PaymentLog_write 7 0 (Some ''cancel'') (Some ''ERROR'') (Some ''HTTP 500'') example_log) =
      [\<lparr>log_date = 0, log_service_id = 7, log_action = ''cancel'', log_result = ''ERROR'',
        log_reason = Some ''HTTP 500''\<rparr>]
   \<and> log_error (S3PaymentLog_write 7 0 (Some ''cancel'') (Some ''ERROR'') (Some ''HTTP 500'') example_log) =
      [''Payment Service #7: '' @ [CHR 0x27] @ ''cancel'' @ [CHR 0x27] @ '' failed [HTTP 500]'']
   \<and> sublist ''HTTP 500'' (failure_line 7 ''cancel'' (Some ''HTTP 500''))
   \<and> fin_payment_log (S3PaymentLog_write 7 0 (Some ''cancel'') (Some ''SUCCESS'') None example_log) =
      [\<lparr>log_date = 0, log_service_id = 7, log_action = ''cancel'', log_result = ''SUCCESS'',
        log_reason = None\<rparr>]
   \<and> log_error (S3PaymentLog_write 7 0 (Some ''cancel'') (Some ''SUCCESS'') None example_log) = []"
  using write_entry_and_failure_line [of "Some ''cancel''" "''cancel''" "Some ''ERROR''" 7 0 "Some ''HTTP 500''" example_log]
    write_entry_and_failure_line [of "Some ''cancel''" "''cancel''" "Some ''SUCCESS''" 7 0 None example_log]
  by (simp add: example_log_def failure_line_def failure_msg_def str_int_7)

section \<open>The reference check\<close>

text \<open>
  C5. The default \<^verbatim>\<open>verify_reference\<close> is false when the request has no record, false
  when the record has no reference number (none, or the empty string), false when the
  query has no \<^verbatim>\<open>subscription_id\<close>, and true exactly when the query variable is a string
  equal to the stored, non-empty reference number.
\<close>

theorem verify_reference_exact_match:
  "(r_record r = None \<longrightarrow> \<not> verify_reference r)
   \<and> (\<forall>record. r_record r = Some record \<and> \<not> truthy (sub_refno record) \<longrightarrow> \<not> verify_reference r)
   \<and> (get_vars r ''subscription_id'' = None \<longrightarrow> \<not> verify_reference r)
   \<and> (verify_reference r \<longleftrightarrow>
        (\<exists>record refno. r_record r = Some record \<and> sub_refno record = Some refno \<and> refno \<noteq> []
           \<and> get_vars r ''subscription_id'' = Some (QStr refno)))"
  by (auto simp: verify_reference_def truthy_def split: option.splits)

theorem verify_reference_exact_match_witness:
  "verify_reference example_request
   \<and> \<not> verify_reference (example_request\<lparr>r_record := None\<rparr>)
   \<and> \<not> verify_reference (example_request\<lparr>r_record := Some \<lparr>sub_id = 3, sub_service_id = Some 7, sub_refno = None\<rparr>\<rparr>)
   \<and> \<not> verify_reference (example_request\<lparr>get_vars := Map.empty\<rparr>)
   \<and> \<not> verify_reference (example_request\<lparr>get_vars := [''subscription_id'' \<mapsto> QStr ''I-43'']\<rparr>)"
  using verify_reference_exact_match [of example_request]
    verify_reference_exact_match [of "example_request\<lparr>r_record := None\<rparr>"]
    verify_reference_exact_match [of "example_request\<lparr>r_record := Some \<lparr>sub_id = 3, sub_service_id = Some 7, sub_refno = None\<rparr>\<rparr>"]
    verify_reference_exact_match [of "example_request\<lparr>get_vars := Map.empty\<rparr>"]
    verify_reference_exact_match [of "example_request\<lparr>get_vars := [''subscription_id'' \<mapsto> QStr ''I-43'']\<rparr>"]
  by (simp add: example_request_def)

section \<open>Requests without a base URL\<close>

text \<open>
  C6. With no base URL (none, or the empty string) \<^verbatim>\<open>http\<close> returns the triple
  \<^verbatim>\<open>(None, None, "No base URL set")\<close> whatever its other arguments are, leaves the instance
  as it was and makes no call: no request is opened and no token is refreshed.
\<close>

theorem http_without_base_url:
  "\<not> truthy (base_url self) \<Longrightarrow>
     http lib cls utcnow self method path args data headers auth encode decode =
       (Inr (PyNone, None, PyStr ''No base URL set''), self, [])"
  by (simp add: http_def)

theorem http_without_base_url_witness:
  "\<not> truthy (base_url (example_service\<lparr>base_url := None\<rparr>))
   \<and> http example_lib (example_class None) 150 (example_service\<lparr>base_url := None\<rparr>)
        ''GET'' (Some ''/ping'') [] PyNone [] (AuthStr ''Token'') ''json'' ''json'' =
       (Inr (PyNone, None, PyStr ''No base URL set''), example_service\<lparr>base_url := None\<rparr>, [])
   \<and> http example_lib (example_class None) 150 (example_service\<lparr>base_url := Some []\<rparr>)
        ''POST'' None [] (PyStr ''x'') [] (AuthBool False) ''text'' ''text'' =
       (Inr (PyNone, None, PyStr ''No base URL set''), example_service\<lparr>base_url := Some []\<rparr>, [])"
  using http_without_base_url [of "example_service\<lparr>base_url := None\<rparr>" example_lib "example_class None" 150
      "''GET''" "Some ''/ping''" "[]" PyNone "[]" "AuthStr ''Token''" "''json''" "''json''"]
    http_without_base_url [of "example_service\<lparr>base_url := Some []\<rparr>" example_lib "example_class None" 150
      "''POST''" None "[]" "PyStr ''x''" "[]" "AuthBool False" "''text''" "''text''"]
  by simp

section \<open>Confirming a subscription\<close>

lemma confirm_subscription_checked:
  assumes "r_record r = Some record"
    and "int_truthy (sub_service_id record)"
    and "adapter env (current_db w) (the (sub_service_id record)) = Inr (cls, self)"
    and "cls_verify_reference cls r"
    and "check_subscription cls self (current_db w) (sub_id record) = (Inr status, db')"
  shows "confirm_subscription env r w =
      (Inr \<lparr>out_dict = [], out_request = r\<lparr>r_http := ''POST''\<rparr>,
            out_next = r_url env (r\<lparr>r_http := ''POST''\<rparr>)\<rparr>,
       \<lparr>current_response = set_outcome (T env) status (current_response w), current_db = db'\<rparr>)"
  using assms by (simp add: confirm_subscription_def Let_def)

lemma example_adapter:
  "adapter (example_env status) () 7 = Inr (example_class status, init example_row)"
  by (simp add: adapter_def example_env_def adapters_def example_row_def)

lemma example_confirm:
  "confirm_subscription (example_env status) example_request example_world =
     (Inr \<lparr>out_dict = [], out_request = example_request\<lparr>r_http := ''POST''\<rparr>,
           out_next = ''/fin/subscription''\<rparr>,
      \<lparr>current_response = set_outcome (\<lambda>s. s) status \<lparr>confirmation = None, warning = None, error = None\<rparr>,
       current_db = ()\<rparr>)"
proof -
  have 1: "r_record example_request = Some \<lparr>sub_id = 3, sub_service_id = Some 7, sub_refno = Some ''I-42''\<rparr>"
    by (simp add: example_request_def)
  have 2: "cls_verify_reference (example_class status) example_request"
    by (simp add: example_class_def verify_reference_def example_request_def truthy_def)
  have 3: "check_subscription (example_class status) (init example_row) () 3 = (Inr status, ())"
    by (simp add: example_class_def)
  show ?thesis
    using confirm_subscription_checked [of example_request _ "example_env status" example_world
        "example_class status" "init example_row" status "()", OF 1]
      example_adapter [of status] 2 3
    by (simp add: int_truthy_def example_world_def example_env_def)
qed

text \<open>
  C1, as stated, fails: APPROVED is a non-empty status other than ACTIVE, the reference
  check passes, and no warning is set.
\<close>

theorem confirm_approved_no_warning_counterexample:
  "Some ''APPROVED'' \<noteq> Some ''ACTIVE'' \<and> truthy (Some ''APPROVED'')
   \<and> cls_verify_reference (example_class (Some ''APPROVED'')) example_request
   \<and> check_subscription (example_class (Some ''APPROVED'')) (init example_row) () 3 = (Inr (Some ''APPROVED''), ())
   \<and> warning (current_response (snd (confirm_subscription (example_env (Some ''APPROVED'')) example_request example_world))) = None"
proof -
  have "warning (current_response (snd (confirm_subscription (example_env (Some ''APPROVED'')) example_request example_world))) = None"
    by (simp add: example_confirm set_outcome_def)
  moreover have "cls_verify_reference (example_class (Some ''APPROVED'')) example_request"
    by (simp add: example_class_def verify_reference_def example_request_def)
  moreover have "check_subscription (example_class (Some ''APPROVED'')) (init example_row) () 3 = (Inr (Some ''APPROVED''), ())"
    by (simp add: example_class_def)
  ultimately show ?thesis by simp
qed

text \<open>
  C1, amended. When the record, the adapter and the reference check are in order and
  \<^verbatim>\<open>check_subscription\<close> returns a status, \<^verbatim>\<open>confirm_subscription\<close> sets exactly one field
  of the response and leaves the others: the confirmation for the status ACTIVE, the error
  for an empty or absent status, the warning for every other non-empty status except
  APPROVED.
\<close>

theorem confirm_status_outcome:
  assumes "r_record r = Some record"
    and "int_truthy (sub_service_id record)"
    and "adapter env (current_db w) (the (sub_service_id record)) = Inr (cls, self)"
    and "cls_verify_reference cls r"
    and "check_subscription cls self (current_db w) (sub_id record) = (Inr status, db')"
  shows
    "(status = Some ''ACTIVE'' \<longrightarrow>
        current_response (snd (confirm_subscription env r w)) =
          (current_response w)\<lparr>confirmation := Some (T env ''Subscription activated'')\<rparr>)
     \<and> (\<not> truthy status \<longrightarrow>
        current_response (snd (confirm_subscription env r w)) =
          (current_response w)\<lparr>error := Some (T env ''Could not verify subscription status'')\<rparr>)
     \<and> (truthy status \<and> status \<noteq> Some ''ACTIVE'' \<and> status \<noteq> Some ''APPROVED'' \<longrightarrow>
        current_response (snd (confirm_subscription env r w)) =
          (current_response w)\<lparr>warning := Some (T env ''Subscription inactive'')\<rparr>)"
  unfolding confirm_subscription_checked [OF assms]
  by (auto simp: set_outcome_def truthy_def)

theorem confirm_status_outcome_witness:
  "current_response (snd (confirm_subscription (example_env (Some ''ACTIVE'')) example_request example_world)) =
     \<lparr>confirmation = Some ''Subscription activated'', warning = None, error = None\<rparr>
   \<and> current_response (snd (confirm_subscription (example_env None) example_request example_world)) =
     \<lparr>confirmation = None, warning = None, error = Some ''Could not verify subscription status''\<rparr>
   \<and> current_response (snd (confirm_subscription (example_env (Some [])) example_request example_world)) =
     \<lparr>confirmation = None, warning = None, error = Some ''Could not verify subscription status''\<rparr>
   \<and> current_response (snd (confirm_subscription (example_env (Some ''CANCELLED'')) example_request example_world)) =
     \<lparr>confirmation = None, warning = Some ''Subscription inactive'', error = None\<rparr>"
proof -
  have 1: "r_record example_request = Some \<lparr>sub_id = 3, sub_service_id = Some 7, sub_refno = Some ''I-42''\<rparr>"
    by (simp add: example_request_def)
  have 2: "int_truthy (sub_service_id \<lparr>sub_id = 3, sub_service_id = Some 7, sub_refno = Some ''I-42''\<rparr>)"
    by (simp add: int_truthy_def)
  have 3: "adapter (example_env status) (current_db example_world)
      (the (sub_service_id \<lparr>sub_id = 3, sub_service_id = Some 7, sub_refno = Some ''I-42''\<rparr>)) =
      Inr (example_class status, init example_row)" for status
    by (simp add: example_adapter example_world_def)
  have 4: "cls_verify_reference (example_class status) example_request" for status
    by (simp add: example_class_def verify_reference_def example_request_def truthy_def)
  have 5: "check_subscription (example_class status) (init example_row) (current_db example_world)
      (sub_id \<lparr>sub_id = 3, sub_service_id = Some 7, sub_refno = Some ''I-42''\<rparr>) = (Inr status, ())" for status
    by (simp add: example_class_def)
  show ?thesis
    using confirm_status_outcome [OF 1 2 3 4 5, of "Some ''ACTIVE''"]
      confirm_status_outcome [OF 1 2 3 4 5, of None]
      confirm_status_outcome [OF 1 2 3 4 5, of "Some []"]
      confirm_status_outcome [OF 1 2 3 4 5, of "Some ''CANCELLED''"]
    by (simp add: truthy_def example_world_def example_env_def)
qed

text \<open>
  C9. When the reference check passes and \<^verbatim>\<open>check_subscription\<close> returns APPROVED,
  \<^verbatim>\<open>confirm_subscription\<close> leaves the response as it was (no confirmation, no warning, no
  error), leaves the database as \<^verbatim>\<open>check_subscription\<close> left it, and returns normally:
  the empty dict, with \<^verbatim>\<open>r.http\<close> set to POST and the next URL set.
\<close>

theorem confirm_approved_changes_nothing:
  assumes "r_record r = Some record"
    and "int_truthy (sub_service_id record)"
    and "adapter env (current_db w) (the (sub_service_id record)) = Inr (cls, self)"
    and "cls_verify_reference cls r"
    and "check_subscription cls self (current_db w) (sub_id record) = (Inr (Some ''APPROVED''), db')"
  shows "confirm_subscription env r w =
      (Inr \<lparr>out_dict = [], out_request = r\<lparr>r_http := ''POST''\<rparr>,
            out_next = r_url env (r\<lparr>r_http := ''POST''\<rparr>)\<rparr>,
       w\<lparr>current_db := db'\<rparr>)"
  unfolding confirm_subscription_checked [OF assms]
  by (simp add: set_outcome_def)

theorem confirm_approved_changes_nothing_witness:
  "confirm_subscription (example_env (Some ''APPROVED'')) example_request example_world =
      (Inr \<lparr>out_dict = [], out_request = example_request\<lparr>r_http := ''POST''\<rparr>,
            out_next = ''/fin/subscription''\<rparr>,
       example_world)"
proof -
  have 1: "r_record example_request = Some \<lparr>sub_id = 3, sub_service_id = Some 7, sub_refno = Some ''I-42''\<rparr>"
    by (simp add: example_request_def)
  have 2: "int_truthy (sub_service_id \<lparr>sub_id = 3, sub_service_id = Some 7, sub_refno = Some ''I-42''\<rparr>)"
    by (simp add: int_truthy_def)
  have 3: "adapter (example_env (Some ''APPROVED'')) (current_db example_world)
      (the (sub_service_id \<lparr>sub_id = 3, sub_service_id = Some 7, sub_refno = Some ''I-42''\<rparr>)) =
      Inr (example_class (Some ''APPROVED''), init example_row)"
    by (simp add: example_adapter example_world_def)
  have 4: "cls_verify_reference (example_class (Some ''APPROVED'')) example_request"
    by (simp add: example_class_def verify_reference_def example_request_def truthy_def)
  have 5: "check_subscription (example_class (Some ''APPROVED'')) (init example_row) (current_db example_world)
      (sub_id \<lparr>sub_id = 3, sub_service_id = Some 7, sub_refno = Some ''I-42''\<rparr>) = (Inr (Some ''APPROVED''), ())"
    by (simp add: example_class_def)
  show ?thesis
    using confirm_approved_changes_nothing [OF 1 2 3 4 5]
    by (simp add: example_world_def example_env_def)
qed

section \<open>Token authentication\<close>

text \<open>
  The claims about token authentication are about calls of \<^verbatim>\<open>http\<close> that get as far as
  the authentication step of \<^verbatim>\<open>_http_opener\<close>: the base URL is set, the request object is
  built (\<open>make_request\<close> returns it) and the proxy handler is configured
  (\<open>proxy_handlers\<close> returns). \<open>refreshed\<close> and \<open>self'\<close> name what
  \<^verbatim>\<open>self.get_access_token()\<close> returns or raises and the instance as it leaves it.
\<close>

lemma http_reaching_opener:
  assumes "truthy (base_url self)"
    and "make_request lib (the (base_url self)) method path args data encode decode =
           Inr (req, request_data)"
  shows "http lib cls utcnow self method path args data headers auth encode decode =
      (case http_opener lib cls utcnow self req headers auth of
         (Inl x, self', tr) \<Rightarrow> (Inl x, self', tr)
       | (Inr opener, self', tr) \<Rightarrow>
           (run_result lib decode (opener_open lib opener req request_data),
            self', tr @ [Open opener req request_data]))"
  using assms by (simp add: http_def)

lemma http_opener_token_cached:
  assumes "proxy_handlers lib self req = Inr hs"
    and "truthy (access_token self)"
    and "token_expiry_date self = None \<or> (\<exists>e. token_expiry_date self = Some e \<and> utcnow < e)"
  shows "http_opener lib cls utcnow self req headers (AuthStr ''Token'') =
      (Inr (build_opener hs self req (AuthStr ''Token'')
             (headers @ [token_header (token_type_or_bearer self) (the (access_token self))])),
       self, [])"
  using assms by (auto simp: http_opener_def Let_def)

lemma http_opener_token_refresh:
  assumes "proxy_handlers lib self req = Inr hs"
    and "\<not> truthy (access_token self) \<or> (\<exists>e. token_expiry_date self = Some e \<and> e \<le> utcnow)"
  shows "http_opener lib cls utcnow self req headers (AuthStr ''Token'') =
      (case get_access_token cls self of
         (Inl x, self') \<Rightarrow>
           if x = NotImplementedError
           then (Inr (build_opener hs self req (AuthStr ''Token'') headers), self', [GetAccessToken])
           else (Inl x, self', [GetAccessToken])
       | (Inr token', self') \<Rightarrow>
           (Inr (build_opener hs self req (AuthStr ''Token'')
                  (if truthy token' then headers @ [token_header (token_type_or_bearer self) (the token')]
                   else headers)),
            self', [GetAccessToken]))"
  using assms by (auto simp: http_opener_def Let_def)

lemma addheaders_build_opener:
  "addheaders (build_opener hs self req auth hdrs) = (if hdrs \<noteq> [] then Some hdrs else None)"
  by (simp add: build_opener_def)

lemma http_token_cached:
  assumes "truthy (base_url self)"
    and "make_request lib (the (base_url self)) method path args data encode decode =
           Inr (req, request_data)"
    and "proxy_handlers lib self req = Inr hs"
    and "truthy (access_token self)"
    and "token_expiry_date self = None \<or> (\<exists>e. token_expiry_date self = Some e \<and> utcnow < e)"
  shows "http lib cls utcnow self method path args data headers (AuthStr ''Token'') encode decode =
      (let opener = build_opener hs self req (AuthStr ''Token'')
             (headers @ [token_header (token_type_or_bearer self) (the (access_token self))])
       in (run_result lib decode (opener_open lib opener req request_data), self,
           [Open opener req request_data]))"
  unfolding http_reaching_opener [OF assms(1,2)] http_opener_token_cached [OF assms(3,4,5)]
  by (simp add: Let_def)

lemma http_token_refresh:
  assumes "truthy (base_url self)"
    and "make_request lib (the (base_url self)) method path args data encode decode =
           Inr (req, request_data)"
    and "proxy_handlers lib self req = Inr hs"
    and "\<not> truthy (access_token self) \<or> (\<exists>e. token_expiry_date self = Some e \<and> e \<le> utcnow)"
    and "get_access_token cls self = (refreshed, self')"
  shows "http lib cls utcnow self method path args data headers (AuthStr ''Token'') encode decode =
      (case refreshed of
         Inl x \<Rightarrow>
           if x = NotImplementedError
           then (let opener = build_opener hs self req (AuthStr ''Token'') headers
                 in (run_result lib decode (opener_open lib opener req request_data), self',
                     [GetAccessToken, Open opener req request_data]))
           else (Inl x, self', [GetAccessToken])
       | Inr token' \<Rightarrow>
           (let opener = build_opener hs self req (AuthStr ''Token'')
                  (if truthy token' then headers @ [token_header (token_type_or_bearer self) (the token')]
                   else headers)
            in (run_result lib decode (opener_open lib opener req request_data), self',
                [GetAccessToken, Open opener req request_data])))"
  unfolding http_reaching_opener [OF assms(1,2)] http_opener_token_refresh [OF assms(3,4)] assms(5)
  by (simp add: Let_def split: sum.splits)

lemma refresh_count_simps:
  "refresh_count [] = 0"
  "refresh_count (GetAccessToken # tr) = Suc (refresh_count tr)"
  "refresh_count (Open opener req request_data # tr) = refresh_count tr"
  by (simp_all add: refresh_count_def)


lemma example_base_url: "truthy (base_url example_service)"
  by (simp add: example_service_def)

lemma example_make_request:
  "make_request example_lib (the (base_url example_service)) method (Some ''/ping'') [] PyNone encode decode =
     Inr (\<lparr>req_url = ''https://api.example.com/ping'', req_method = method,
           req_headers = [if decode = ''json'' then (''Accept'', ''application/json'')
                          else (''Accept'', ''*/*'')]\<rparr>, None)"
  by (simp add: make_request_def build_url_def encode_data_def rstrip_slash_def lstrip_slash_def
      example_service_def example_lib_def)

lemma example_make_request_url:
  "make_request example_lib ''https://api.example.com/'' method (Some ''/ping'') [] PyNone encode decode =
     Inr (\<lparr>req_url = ''https://api.example.com/ping'', req_method = method,
           req_headers = [if decode = ''json'' then (''Accept'', ''application/json'')
                          else (''Accept'', ''*/*'')]\<rparr>, None)"
  using example_make_request [of "method" "encode" "decode"] by (simp add: example_service_def)

lemma example_proxy_handlers: "proxy_handlers lib example_service req = Inr []"
  by (simp add: proxy_handlers_def example_service_def)

lemma example_run_result_json:
  "run_result example_lib ''json'' (opener_open example_lib opener req request_data) =
     Inr (PyNone, Some 200, PyNone)"
  by (simp add: run_result_def json_load_def example_lib_def)

lemma example_token_opener:
  "build_opener [] example_service req (AuthStr ''Token'') hdrs =
     \<lparr>handlers = [], addheaders = (if hdrs \<noteq> [] then Some hdrs else None)\<rparr>"
  by (simp add: build_opener_def example_service_def)


text \<open>
  C10. A call of \<^verbatim>\<open>http\<close> with \<^verbatim>\<open>auth = "Token"\<close> where a token is cached and the expiry
  date is \<^verbatim>\<open>None\<close>, whatever the request time is: \<^verbatim>\<open>get_access_token\<close> is not called (no
  refresh among the events, the instance returned as it was), and the request, once its
  object and the proxy handler are built, is opened with the cached token in the
  Authorization header; every request the call opens has exactly that header added.
\<close>

theorem token_without_expiry_never_refreshed:
  assumes "truthy (base_url self)"
    and "truthy (access_token self)"
    and "token_expiry_date self = None"
  shows
    "http lib cls utcnow self method path args data headers (AuthStr ''Token'') encode decode =
       (case make_request lib (the (base_url self)) method path args data encode decode of
          Inl x \<Rightarrow> (Inl x, self, [])
        | Inr (req, request_data) \<Rightarrow>
            (case proxy_handlers lib self req of
               Inl x \<Rightarrow> (Inl x, self, [])
             | Inr hs \<Rightarrow>
                 (let opener = build_opener hs self req (AuthStr ''Token'')
                        (headers @ [token_header (token_type_or_bearer self) (the (access_token self))])
                  in (run_result lib decode (opener_open lib opener req request_data), self,
                      [Open opener req request_data]))))
     \<and> fst (snd (http lib cls utcnow self method path args data headers (AuthStr ''Token'') encode decode)) = self
     \<and> refresh_count
         (snd (snd (http lib cls utcnow self method path args data headers (AuthStr ''Token'') encode decode))) = 0
     \<and> (\<forall>opener req request_data.
           Open opener req request_data \<in>
             set (snd (snd (http lib cls utcnow self method path args data headers (AuthStr ''Token'') encode decode)))
           \<longrightarrow> addheaders opener =
                 Some (headers @ [token_header (token_type_or_bearer self) (the (access_token self))]))"
proof -
  have 1: "http lib cls utcnow self method path args data headers (AuthStr ''Token'') encode decode =
       (case make_request lib (the (base_url self)) method path args data encode decode of
          Inl x \<Rightarrow> (Inl x, self, [])
        | Inr (req, request_data) \<Rightarrow>
            (case proxy_handlers lib self req of
               Inl x \<Rightarrow> (Inl x, self, [])
             | Inr hs \<Rightarrow>
                 (let opener = build_opener hs self req (AuthStr ''Token'')
                        (headers @ [token_header (token_type_or_bearer self) (the (access_token self))])
                  in (run_result lib decode (opener_open lib opener req request_data), self,
                      [Open opener req request_data]))))"
  proof (cases "make_request lib (the (base_url self)) method path args data encode decode")
    case (Inl x)
    with assms(1) show ?thesis
      by (simp add: http_def)
  next
    case (Inr p)
    obtain req request_data where p: "p = (req, request_data)"
      by (cases p)
    show ?thesis
    proof (cases "proxy_handlers lib self req")
      case (Inl x)
      with assms(1) Inr p show ?thesis
        by (simp add: http_def http_opener_def)
    next
      case hs: (Inr hs)
      from assms(3) have e: "token_expiry_date self = None \<or>
          (\<exists>e. token_expiry_date self = Some e \<and> utcnow < e)"
        by simp
      from http_token_cached [OF assms(1) Inr [unfolded p] hs assms(2) e] Inr p hs
      show ?thesis
        by simp
    qed
  qed
  have 2: "fst (snd (http lib cls utcnow self method path args data headers (AuthStr ''Token'') encode decode)) = self"
    unfolding 1 by (simp add: Let_def split: sum.splits prod.splits)
  have 3: "refresh_count
      (snd (snd (http lib cls utcnow self method path args data headers (AuthStr ''Token'') encode decode))) = 0"
    unfolding 1 by (simp add: Let_def refresh_count_simps split: sum.splits prod.splits)
  have 4: "\<forall>opener req request_data.
      Open opener req request_data \<in>
        set (snd (snd (http lib cls utcnow self method path args data headers (AuthStr ''Token'') encode decode)))
      \<longrightarrow> addheaders opener =
            Some (headers @ [token_header (token_type_or_bearer self) (the (access_token self))])"
    unfolding 1 by (auto simp: Let_def addheaders_build_opener split: sum.splits prod.splits)
  from 1 2 3 4 show ?thesis
    by (intro conjI)
qed

theorem token_without_expiry_never_refreshed_witness:
  "truthy (base_url (example_service\<lparr>token_expiry_date := None\<rparr>))
   \<and> truthy (access_token (example_service\<lparr>token_expiry_date := None\<rparr>))
   \<and> http example_lib refreshing_class 1000000 (example_service\<lparr>token_expiry_date := None\<rparr>)
        ''GET'' (Some ''/ping'') [] PyNone [] (AuthStr ''Token'') ''json'' ''json'' =
       (Inr (PyNone, Some 200, PyNone), example_service\<lparr>token_expiry_date := None\<rparr>,
        [Open \<lparr>handlers = [], addheaders = Some [(''Authorization'', ''Bearer T1'')]\<rparr>
           \<lparr>req_url = ''https://api.example.com/ping'', req_method = ''GET'',
             req_headers = [(''Accept'', ''application/json'')]\<rparr> None])
   \<and> refresh_count (snd (snd (http example_lib refreshing_class 1000000
        (example_service\<lparr>token_expiry_date := None\<rparr>)
        ''GET'' (Some ''/ping'') [] PyNone [] (AuthStr ''Token'') ''json'' ''json''))) = 0"
proof -
  have a: "truthy (base_url (example_service\<lparr>token_expiry_date := None\<rparr>))"
    "truthy (access_token (example_service\<lparr>token_expiry_date := None\<rparr>))"
    "token_expiry_date (example_service\<lparr>token_expiry_date := None\<rparr>) = None"
    by (simp_all add: example_service_def)
  show ?thesis
    using token_without_expiry_never_refreshed [OF a, of example_lib refreshing_class 1000000
        "''GET''" "Some ''/ping''" "[]" PyNone "[]" "''json''" "''json''"] a(1,2)
    by (simp add: example_service_def example_make_request_url proxy_handlers_def build_opener_def
        token_header_def token_type_or_bearer_def example_run_result_json refresh_count_simps Let_def)
qed

section \<open>A refresh that fails\<close>

text \<open>
  C3, as stated, fails: a \<^verbatim>\<open>get_access_token\<close> that fails by raising an exception other
  than \<^verbatim>\<open>NotImplementedError\<close> is not caught at lines 534-537, and \<^verbatim>\<open>_http_opener\<close> is
  called outside the \<^verbatim>\<open>try\<close> of \<^verbatim>\<open>http\<close> (line 456): the exception leaves \<^verbatim>\<open>http\<close>
  after the refresh, and no request is opened.
\<close>

theorem refresh_exception_counterexample:
  "truthy (base_url example_service)
   \<and> token_expiry_date example_service = Some 100
   \<and> get_access_token raising_class example_service =
       (Inl (OtherException ''token request failed''), example_service)
   \<and> http example_lib raising_class 100 example_service ''GET'' (Some ''/ping'') [] PyNone []
        (AuthStr ''Token'') ''json'' ''json'' =
       (Inl (OtherException ''token request failed''), example_service, [GetAccessToken])"
proof -
  have e: "\<not> truthy (access_token example_service) \<or>
      (\<exists>e. token_expiry_date example_service = Some e \<and> e \<le> 100)"
    by (simp add: example_service_def)
  have g: "get_access_token raising_class example_service =
      (Inl (OtherException ''token request failed''), example_service)"
    by (simp add: raising_class_def)
  from http_token_refresh [OF example_base_url example_make_request example_proxy_handlers e g]
  have "http example_lib raising_class 100 example_service ''GET'' (Some ''/ping'') [] PyNone []
        (AuthStr ''Token'') ''json'' ''json'' =
       (Inl (OtherException ''token request failed''), example_service, [GetAccessToken])"
    by simp
  with example_base_url g show ?thesis
    by (simp add: example_service_def)
qed

text \<open>
  C3, amended. A call of \<^verbatim>\<open>http\<close> with \<^verbatim>\<open>auth = "Token"\<close> that refreshes the token. When
  \<^verbatim>\<open>get_access_token\<close> is not implemented (it raises \<^verbatim>\<open>NotImplementedError\<close>) or fails by
  returning no token (none or empty), the request is opened after the refresh, with an
  opener whose headers are the caller's headers alone (no Authorization header is added),
  and the result of \<^verbatim>\<open>http\<close> is the outcome of that request. When it fails by raising any
  other exception, that exception leaves \<^verbatim>\<open>http\<close> and no request is opened.
\<close>

theorem failed_refresh_sends_unauthenticated:
  assumes "truthy (base_url self)"
    and "make_request lib (the (base_url self)) method path args data encode decode =
           Inr (req, request_data)"
    and "proxy_handlers lib self req = Inr hs"
    and "\<not> truthy (access_token self) \<or> (\<exists>e. token_expiry_date self = Some e \<and> e \<le> utcnow)"
    and "get_access_token cls self = (refreshed, self')"
  shows
    "(refreshed = Inl NotImplementedError \<or> (\<exists>t. refreshed = Inr t \<and> \<not> truthy t) \<longrightarrow>
        (let opener = build_opener hs self req (AuthStr ''Token'') headers
         in http lib cls utcnow self method path args data headers (AuthStr ''Token'') encode decode =
              (run_result lib decode (opener_open lib opener req request_data), self',
               [GetAccessToken, Open opener req request_data])
            \<and> addheaders opener = (if headers \<noteq> [] then Some headers else None)))
     \<and> (\<forall>x. refreshed = Inl x \<and> x \<noteq> NotImplementedError \<longrightarrow>
          http lib cls utcnow self method path args data headers (AuthStr ''Token'') encode decode =
            (Inl x, self', [GetAccessToken]))"
  unfolding http_token_refresh [OF assms]
  by (auto simp: Let_def addheaders_build_opener)

theorem failed_refresh_sends_unauthenticated_witness:
  "http example_lib (example_class None) 100 example_service ''GET'' (Some ''/ping'') [] PyNone []
     (AuthStr ''Token'') ''json'' ''json'' =
     (Inr (PyNone, Some 200, PyNone), example_service,
      [GetAccessToken,
       Open \<lparr>handlers = [], addheaders = None\<rparr>
         \<lparr>req_url = ''https://api.example.com/ping'', req_method = ''GET'',
           req_headers = [(''Accept'', ''application/json'')]\<rparr> None])
   \<and> http example_lib (base_class :: unit adapter_class) 100 example_service ''GET'' (Some ''/ping'') []
       PyNone [(''X-Request-Id'', ''1'')] (AuthStr ''Token'') ''json'' ''json'' =
     (Inr (PyNone, Some 200, PyNone), example_service,
      [GetAccessToken,
       Open \<lparr>handlers = [], addheaders = Some [(''X-Request-Id'', ''1'')]\<rparr>
         \<lparr>req_url = ''https://api.example.com/ping'', req_method = ''GET'',
           req_headers = [(''Accept'', ''application/json'')]\<rparr> None])
   \<and> http example_lib raising_class 100 example_service ''GET'' (Some ''/ping'') [] PyNone []
        (AuthStr ''Token'') ''json'' ''json'' =
       (Inl (OtherException ''token request failed''), example_service, [GetAccessToken])"
proof -
  have e: "\<not> truthy (access_token example_service) \<or>
      (\<exists>e. token_expiry_date example_service = Some e \<and> e \<le> 100)"
    by (simp add: example_service_def)
  have g1: "get_access_token (example_class None) example_service = (Inr None, example_service)"
    by (simp add: example_class_def)
  have g2: "get_access_token (base_class :: unit adapter_class) example_service =
      (Inl NotImplementedError, example_service)"
    by (simp add: base_class_def)
  have g3: "get_access_token raising_class example_service =
      (Inl (OtherException ''token request failed''), example_service)"
    by (simp add: raising_class_def)
  show ?thesis
    using failed_refresh_sends_unauthenticated
        [where headers = "[]", OF example_base_url example_make_request example_proxy_handlers e g1]
      failed_refresh_sends_unauthenticated
        [where headers = "[(''X-Request-Id'', ''1'')]",
         OF example_base_url example_make_request example_proxy_handlers e g2]
      failed_refresh_sends_unauthenticated
        [where headers = "[]", OF example_base_url example_make_request example_proxy_handlers e g3]
    by (simp add: example_run_result_json example_token_opener Let_def)
qed

section \<open>The outcome of a request\<close>

lemma http_opener_no_preemptive_auth:
  assumes "proxy_handlers lib self req = Inr hs"
    and "auth \<noteq> AuthStr ''Basic''" and "auth \<noteq> AuthStr ''Token''"
  shows "http_opener lib cls utcnow self req headers auth =
      (Inr (build_opener hs self req auth headers), self, [])"
  using assms by (simp add: http_opener_def)

lemma py_truthy_not_None: "py_truthy v \<Longrightarrow> v \<noteq> PyNone"
  by (cases v) simp_all

lemma run_result_failures:
  "read_str lib body = Inr s \<Longrightarrow>
     run_result lib decode (HTTPError code body) = Inr (PyNone, Some code, PyStr s)"
  "read_str lib body = Inl x \<Longrightarrow> run_result lib decode (HTTPError code body) = Inl x"
  "run_result lib decode (URLError reason) =
     Inr (PyNone, None, if py_truthy reason then reason else PyStr ''Unknown network error'')"
  "run_result lib decode (OtherError x) = Inr (PyNone, None, PyExc x)"
  by (simp_all add: run_result_def)

lemma run_result_raises:
  assumes "run_result lib decode outcome = Inl x"
  shows "(\<exists>code body. outcome = HTTPError code body \<and> read_str lib body = Inl x)
    \<or> (\<exists>code body. outcome = Opened code body \<and> decode = ''text'' \<and> read_str lib body = Inl x)
    \<or> (\<exists>code body. outcome = Opened code body \<and> decode = ''json'' \<and> json_load lib body = Inl x
          \<and> \<not> JSONERRORS lib x)"
  using assms by (cases outcome) (auto simp: run_result_def split: sum.splits if_splits)

lemma run_result_returns:
  assumes "run_result lib decode outcome = Inr (out, st, err)"
  shows "out = PyNone \<or> err = PyNone"
    and "(\<exists>reason. outcome = URLError reason) \<or> (\<exists>x. outcome = OtherError x) \<Longrightarrow>
           out = PyNone \<and> st = None \<and> py_truthy err"
    and "outcome = Opened code body \<or> outcome = HTTPError code body \<Longrightarrow> st = Some code"
    and "outcome = HTTPError code body \<Longrightarrow> out = PyNone \<and> (\<exists>s. read_str lib body = Inr s \<and> err = PyStr s)"
    and "outcome = Opened code body \<Longrightarrow> err \<noteq> PyNone \<Longrightarrow>
           decode = ''json'' \<and> out = PyNone \<and> (\<exists>x. json_load lib body = Inl x \<and> JSONERRORS lib x \<and> err = PyExc x)"
  using assms
  by (cases outcome; auto simp: run_result_def split: sum.splits if_splits)+

lemma run_result_raises_iff:
  "run_result lib decode outcome = Inl x \<longleftrightarrow>
     (\<exists>code body. outcome = HTTPError code body \<and> read_str lib body = Inl x)
     \<or> (\<exists>code body. outcome = Opened code body \<and> decode = ''text'' \<and> read_str lib body = Inl x)
     \<or> (\<exists>code body. outcome = Opened code body \<and> decode = ''json'' \<and> json_load lib body = Inl x
           \<and> \<not> JSONERRORS lib x)"
  by (cases outcome) (auto simp: run_result_def split: sum.splits if_splits)

lemma read_str_Body: "read_str lib (Body b) = s3_str lib b"
  by (simp add: read_str_def)

text \<open>
  C7, as stated, fails, on calls with a base URL. A response 200 whose body is the JSON
  text \<^verbatim>\<open>null\<close>, decoded as JSON, gives \<^verbatim>\<open>(None, 200, None)\<close>: neither the output nor
  the error is set. An HTTP error 500 with an empty body gives the error \<^verbatim>\<open>""\<close>, which
  a caller's \<^verbatim>\<open>if error\<close> takes for no error. A connection that breaks while the body is
  read, of a response or of an HTTP error, raises out of \<^verbatim>\<open>http\<close>: the \<^verbatim>\<open>except\<close> clauses
  cover \<^verbatim>\<open>opener.open\<close> only. An exception of \<^verbatim>\<open>get_access_token\<close>, and the
  \<^verbatim>\<open>ValueError\<close> of \<^verbatim>\<open>urllib2.Request\<close> for a base URL without a scheme, leave \<^verbatim>\<open>http\<close>
  before any request is opened.
\<close>

theorem http_raises_or_empty_counterexample:
  "truthy (base_url example_service)
   \<and> truthy (base_url (example_service\<lparr>base_url := Some ''api.example.com''\<rparr>))
   \<and> http example_lib (example_class None) 50 example_service ''GET'' (Some ''/ping'') [] PyNone []
        (AuthBool False) ''json'' ''json'' =
       (Inr (PyNone, Some 200, PyNone), example_service,
        [Open \<lparr>handlers = [], addheaders = None\<rparr>
           \<lparr>req_url = ''https://api.example.com/ping'', req_method = ''GET'',
             req_headers = [(''Accept'', ''application/json'')]\<rparr> None])
   \<and> fst (http (example_lib_with (HTTPError 500 (Body []))) (example_class None) 50 example_service
        ''GET'' (Some ''/ping'') [] PyNone [] (AuthBool False) ''json'' ''json'') =
       Inr (PyNone, Some 500, PyStr [])
   \<and> \<not> py_truthy (PyStr [])
   \<and> fst (http (example_lib_with (Opened 200 (ReadError (OtherException ''IncompleteRead''))))
        (example_class None) 50 example_service
        ''GET'' (Some ''/ping'') [] PyNone [] (AuthBool False) ''json'' ''text'') =
       Inl (OtherException ''IncompleteRead'')
   \<and> fst (http (example_lib_with (HTTPError 502 (ReadError (OtherException ''IncompleteRead''))))
        (example_class None) 50 example_service
        ''GET'' (Some ''/ping'') [] PyNone [] (AuthBool False) ''json'' ''json'') =
       Inl (OtherException ''IncompleteRead'')
   \<and> http example_lib raising_class 100 example_service ''GET'' (Some ''/ping'') [] PyNone []
        (AuthStr ''Token'') ''json'' ''json'' =
       (Inl (OtherException ''token request failed''), example_service, [GetAccessToken])
   \<and> http example_lib (example_class None) 50 (example_service\<lparr>base_url := Some ''api.example.com''\<rparr>)
        ''GET'' (Some ''/ping'') [] PyNone [] (AuthBool False) ''json'' ''json'' =
       (Inl (ValueError ''unknown url type''),
        example_service\<lparr>base_url := Some ''api.example.com''\<rparr>, [])"
  by (simp add: http_def http_opener_def build_opener_def proxy_handlers_def make_request_def
      build_url_def encode_data_def run_result_def read_str_def json_load_def rstrip_slash_def
      lstrip_slash_def example_service_def example_lib_def example_lib_with_def raising_class_def
      example_class_def Let_def)

text \<open>
  C7, amended. For every call of \<^verbatim>\<open>http\<close> with a base URL: an exception raised while the
  request is built leaves \<^verbatim>\<open>http\<close> with no event; an exception raised by
  \<^verbatim>\<open>_http_opener\<close> leaves \<^verbatim>\<open>http\<close> with the events of \<^verbatim>\<open>_http_opener\<close>; otherwise the
  request is opened once, after those events, and the result of \<^verbatim>\<open>http\<close> is decided by the
  outcome of \<^verbatim>\<open>opener.open\<close> alone. An HTTP error whose body can be read gives its code as
  the status and the body as the error; a network error gives its reason as the error, or
  "Unknown network error" when the reason is empty, and no status; any other exception of
  \<^verbatim>\<open>opener.open\<close> gives that exception as the error and no status. \<^verbatim>\<open>http\<close> raises
  exactly when the body of an HTTP error cannot be read, when the body of a response
  decoded as text cannot be read, or when \<^verbatim>\<open>json.load\<close> raises an exception that is not
  one of \<^verbatim>\<open>JSONERRORS\<close>. When \<^verbatim>\<open>http\<close> returns, the output and the error are never both
  set; after a network error or another exception the error is set and not empty; after
  an HTTP error the output is \<^verbatim>\<open>None\<close> and the error is the body, which may be empty;
  after a response the error is set only by a \<^verbatim>\<open>JSONERRORS\<close> failure of \<^verbatim>\<open>json.load\<close>;
  and the status is the code whenever a response or an HTTP error was received.
\<close>

theorem http_outcome_as_values:
  assumes "truthy (base_url self)"
  shows
    "(\<forall>x. make_request lib (the (base_url self)) method path args data encode decode = Inl x \<longrightarrow>
        http lib cls utcnow self method path args data headers auth encode decode = (Inl x, self, []))
     \<and> (\<forall>req request_data x self' tr.
          make_request lib (the (base_url self)) method path args data encode decode =
            Inr (req, request_data)
          \<and> http_opener lib cls utcnow self req headers auth = (Inl x, self', tr) \<longrightarrow>
          http lib cls utcnow self method path args data headers auth encode decode = (Inl x, self', tr))
     \<and> (\<forall>req request_data opener self' tr.
          make_request lib (the (base_url self)) method path args data encode decode =
            Inr (req, request_data)
          \<and> http_opener lib cls utcnow self req headers auth = (Inr opener, self', tr) \<longrightarrow>
          http lib cls utcnow self method path args data headers auth encode decode =
            (run_result lib decode (opener_open lib opener req request_data), self',
             tr @ [Open opener req request_data]))
     \<and> (\<forall>code b s. s3_str lib b = Inr s \<longrightarrow>
          run_result lib decode (HTTPError code (Body b)) = Inr (PyNone, Some code, PyStr s))
     \<and> (\<forall>reason. run_result lib decode (URLError reason) =
          Inr (PyNone, None, if py_truthy reason then reason else PyStr ''Unknown network error''))
     \<and> (\<forall>x. run_result lib decode (OtherError x) = Inr (PyNone, None, PyExc x))
     \<and> (\<forall>outcome x. run_result lib decode outcome = Inl x \<longleftrightarrow>
          (\<exists>code body. outcome = HTTPError code body \<and> read_str lib body = Inl x)
          \<or> (\<exists>code body. outcome = Opened code body \<and> decode = ''text'' \<and> read_str lib body = Inl x)
          \<or> (\<exists>code body. outcome = Opened code body \<and> decode = ''json''
                \<and> json_load lib body = Inl x \<and> \<not> JSONERRORS lib x))
     \<and> (\<forall>outcome out st err. run_result lib decode outcome = Inr (out, st, err) \<longrightarrow>
          (out = PyNone \<or> err = PyNone)
          \<and> ((\<exists>reason. outcome = URLError reason) \<or> (\<exists>x. outcome = OtherError x) \<longrightarrow>
                out = PyNone \<and> st = None \<and> py_truthy err)
          \<and> (\<forall>code body. outcome = Opened code body \<or> outcome = HTTPError code body \<longrightarrow>
                st = Some code)
          \<and> (\<forall>code body. outcome = HTTPError code body \<longrightarrow>
                out = PyNone \<and> (\<exists>s. read_str lib body = Inr s \<and> err = PyStr s))
          \<and> (\<forall>code body. outcome = Opened code body \<and> err \<noteq> PyNone \<longrightarrow>
                decode = ''json'' \<and> out = PyNone
                \<and> (\<exists>x. json_load lib body = Inl x \<and> JSONERRORS lib x \<and> err = PyExc x)))"
proof -
  have 1: "\<forall>x. make_request lib (the (base_url self)) method path args data encode decode = Inl x \<longrightarrow>
      http lib cls utcnow self method path args data headers auth encode decode = (Inl x, self, [])"
    using assms by (simp add: http_def)
  have 2: "\<forall>req request_data x self' tr.
      make_request lib (the (base_url self)) method path args data encode decode = Inr (req, request_data)
      \<and> http_opener lib cls utcnow self req headers auth = (Inl x, self', tr) \<longrightarrow>
      http lib cls utcnow self method path args data headers auth encode decode = (Inl x, self', tr)"
    using assms by (simp add: http_def)
  have 3: "\<forall>req request_data opener self' tr.
      make_request lib (the (base_url self)) method path args data encode decode = Inr (req, request_data)
      \<and> http_opener lib cls utcnow self req headers auth = (Inr opener, self', tr) \<longrightarrow>
      http lib cls utcnow self method path args data headers auth encode decode =
        (run_result lib decode (opener_open lib opener req request_data), self',
         tr @ [Open opener req request_data])"
    using assms by (simp add: http_def)
  have 4: "\<forall>code b s. s3_str lib b = Inr s \<longrightarrow>
      run_result lib decode (HTTPError code (Body b)) = Inr (PyNone, Some code, PyStr s)"
    by (simp add: run_result_failures read_str_Body)
  have 5: "\<forall>reason. run_result lib decode (URLError reason) =
      Inr (PyNone, None, if py_truthy reason then reason else PyStr ''Unknown network error'')"
    by (simp add: run_result_failures)
  have 6: "\<forall>x. run_result lib decode (OtherError x) = Inr (PyNone, None, PyExc x)"
    by (simp add: run_result_failures)
  have 7: "\<forall>outcome x. run_result lib decode outcome = Inl x \<longleftrightarrow>
      (\<exists>code body. outcome = HTTPError code body \<and> read_str lib body = Inl x)
      \<or> (\<exists>code body. outcome = Opened code body \<and> decode = ''text'' \<and> read_str lib body = Inl x)
      \<or> (\<exists>code body. outcome = Opened code body \<and> decode = ''json''
            \<and> json_load lib body = Inl x \<and> \<not> JSONERRORS lib x)"
    by (intro allI run_result_raises_iff)
  have 8: "\<forall>outcome out st err. run_result lib decode outcome = Inr (out, st, err) \<longrightarrow>
      (out = PyNone \<or> err = PyNone)
      \<and> ((\<exists>reason. outcome = URLError reason) \<or> (\<exists>x. outcome = OtherError x) \<longrightarrow>
            out = PyNone \<and> st = None \<and> py_truthy err)
      \<and> (\<forall>code body. outcome = Opened code body \<or> outcome = HTTPError code body \<longrightarrow>
            st = Some code)
      \<and> (\<forall>code body. outcome = HTTPError code body \<longrightarrow>
            out = PyNone \<and> (\<exists>s. read_str lib body = Inr s \<and> err = PyStr s))
      \<and> (\<forall>code body. outcome = Opened code body \<and> err \<noteq> PyNone \<longrightarrow>
            decode = ''json'' \<and> out = PyNone
            \<and> (\<exists>x. json_load lib body = Inl x \<and> JSONERRORS lib x \<and> err = PyExc x))"
  proof (intro allI impI)
    fix outcome out st err
    assume a: "run_result lib decode outcome = Inr (out, st, err)"
    show "(out = PyNone \<or> err = PyNone)
      \<and> ((\<exists>reason. outcome = URLError reason) \<or> (\<exists>x. outcome = OtherError x) \<longrightarrow>
            out = PyNone \<and> st = None \<and> py_truthy err)
      \<and> (\<forall>code body. outcome = Opened code body \<or> outcome = HTTPError code body \<longrightarrow>
            st = Some code)
      \<and> (\<forall>code body. outcome = HTTPError code body \<longrightarrow>
            out = PyNone \<and> (\<exists>s. read_str lib body = Inr s \<and> err = PyStr s))
      \<and> (\<forall>code body. outcome = Opened code body \<and> err \<noteq> PyNone \<longrightarrow>
            decode = ''json'' \<and> out = PyNone
            \<and> (\<exists>x. json_load lib body = Inl x \<and> JSONERRORS lib x \<and> err = PyExc x))"
      using a by (cases outcome; auto simp: run_result_def split: sum.splits if_splits)
  qed
  from 1 2 3 4 5 6 7 8 show ?thesis
    by (intro conjI)
qed

lemma example_make_request_with:
  "make_request (example_lib_with outcome) (the (base_url example_service)) method (Some ''/ping'') []
     PyNone encode decode =
     Inr (\<lparr>req_url = ''https://api.example.com/ping'', req_method = method,
           req_headers = [if decode = ''json'' then (''Accept'', ''application/json'')
                          else (''Accept'', ''*/*'')]\<rparr>, None)"
  by (simp add: make_request_def build_url_def encode_data_def rstrip_slash_def lstrip_slash_def
      example_service_def example_lib_def example_lib_with_def)

lemma example_opener_open_with:
  "opener_open (example_lib_with outcome) opener req request_data = outcome"
  by (simp add: example_lib_with_def)

lemma example_s3_str_with: "s3_str (example_lib_with outcome) b = Inr b"
  by (simp add: example_lib_with_def example_lib_def)

lemma example_opener_no_auth:
  "http_opener lib cls utcnow example_service req [] (AuthBool False) =
     (Inr \<lparr>handlers = [], addheaders = None\<rparr>, example_service, [])"
  by (simp add: http_opener_def proxy_handlers_def build_opener_def example_service_def)

theorem http_outcome_as_values_witness:
  "http (example_lib_with (HTTPError 500 (Body ''boom''))) (example_class None) 50 example_service
     ''POST'' (Some ''/ping'') [] PyNone [] (AuthBool False) ''json'' ''json'' =
     (Inr (PyNone, Some 500, PyStr ''boom''), example_service,
      [Open \<lparr>handlers = [], addheaders = None\<rparr>
         \<lparr>req_url = ''https://api.example.com/ping'', req_method = ''POST'',
           req_headers = [(''Accept'', ''application/json'')]\<rparr> None])
   \<and> fst (http (example_lib_with (URLError PyNone)) (example_class None) 50 example_service
       ''POST'' (Some ''/ping'') [] PyNone [] (AuthBool False) ''json'' ''json'') =
     Inr (PyNone, None, PyStr ''Unknown network error'')
   \<and> fst (http (example_lib_with (OtherError (OtherException ''timed out''))) (example_class None) 50
       example_service ''POST'' (Some ''/ping'') [] PyNone [] (AuthBool False) ''json'' ''json'') =
     Inr (PyNone, None, PyExc (OtherException ''timed out''))
   \<and> fst (http (example_lib_with (Opened 200 (ReadError (OtherException ''IncompleteRead''))))
       (example_class None) 50 example_service ''GET'' (Some ''/ping'') [] PyNone [] (AuthBool False)
       ''json'' ''text'') =
     Inl (OtherException ''IncompleteRead'')
   \<and> http example_lib raising_class 100 example_service ''GET'' (Some ''/ping'') [] PyNone []
       (AuthStr ''Token'') ''json'' ''json'' =
     (Inl (OtherException ''token request failed''), example_service, [GetAccessToken])
   \<and> http example_lib (example_class None) 50 (example_service\<lparr>base_url := Some ''api.example.com''\<rparr>)
       ''GET'' (Some ''/ping'') [] PyNone [] (AuthBool False) ''json'' ''json'' =
     (Inl (ValueError ''unknown url type''),
      example_service\<lparr>base_url := Some ''api.example.com''\<rparr>, [])"
proof -
  let ?req = "\<lambda>method decode. \<lparr>req_url = ''https://api.example.com/ping'', req_method = method,
      req_headers = [if decode = ''json'' then (''Accept'', ''application/json'')
                     else (''Accept'', ''*/*'')]\<rparr>"
  have opened: "http (example_lib_with outcome) (example_class None) 50 example_service
      meth (Some ''/ping'') [] PyNone [] (AuthBool False) ''json'' decode =
      (run_result (example_lib_with outcome) decode outcome, example_service,
       [Open \<lparr>handlers = [], addheaders = None\<rparr> (?req meth decode) None])"
    for outcome meth decode
    using http_outcome_as_values [OF example_base_url, where lib = "example_lib_with outcome"
        and decode = decode, THEN conjunct2, THEN conjunct2, THEN conjunct1,
        rule_format,
        OF conjI [OF example_make_request_with [of outcome meth "''json''" decode]
          example_opener_no_auth]]
    by (simp only: example_opener_open_with append.simps)
  note parts = http_outcome_as_values [OF example_base_url, where lib = example_lib
      and decode = "''json''"]
  have 1: "http (example_lib_with (HTTPError 500 (Body ''boom''))) (example_class None) 50 example_service
     ''POST'' (Some ''/ping'') [] PyNone [] (AuthBool False) ''json'' ''json'' =
     (Inr (PyNone, Some 500, PyStr ''boom''), example_service,
      [Open \<lparr>handlers = [], addheaders = None\<rparr> (?req ''POST'' ''json'') None])"
    using http_outcome_as_values [OF example_base_url,
        where lib = "example_lib_with (HTTPError 500 (Body ''boom''))" and decode = "''json''",
        THEN conjunct2, THEN conjunct2, THEN conjunct2, THEN conjunct1, rule_format,
        OF example_s3_str_with, of 500 "''boom''"]
    by (simp add: opened)
  have 2: "fst (http (example_lib_with (URLError PyNone)) (example_class None) 50 example_service
       ''POST'' (Some ''/ping'') [] PyNone [] (AuthBool False) ''json'' ''json'') =
     Inr (PyNone, None, PyStr ''Unknown network error'')"
    by (simp add: opened run_result_def)
  have 3: "fst (http (example_lib_with (OtherError (OtherException ''timed out''))) (example_class None) 50
       example_service ''POST'' (Some ''/ping'') [] PyNone [] (AuthBool False) ''json'' ''json'') =
     Inr (PyNone, None, PyExc (OtherException ''timed out''))"
    by (simp add: opened run_result_def)
  have 4: "fst (http (example_lib_with (Opened 200 (ReadError (OtherException ''IncompleteRead''))))
       (example_class None) 50 example_service ''GET'' (Some ''/ping'') [] PyNone [] (AuthBool False)
       ''json'' ''text'') =
     Inl (OtherException ''IncompleteRead'')"
    by (simp add: opened run_result_def read_str_def)
  have e: "\<not> truthy (access_token example_service) \<or>
      (\<exists>e. token_expiry_date example_service = Some e \<and> e \<le> 100)"
    by (simp add: example_service_def)
  have g: "get_access_token raising_class example_service =
      (Inl (OtherException ''token request failed''), example_service)"
    by (simp add: raising_class_def)
  have o: "http_opener example_lib raising_class 100 example_service (?req ''GET'' ''json'') []
      (AuthStr ''Token'') = (Inl (OtherException ''token request failed''), example_service, [GetAccessToken])"
    unfolding http_opener_token_refresh [OF example_proxy_handlers e] g by simp
  have 5: "http example_lib raising_class 100 example_service ''GET'' (Some ''/ping'') [] PyNone []
       (AuthStr ''Token'') ''json'' ''json'' =
     (Inl (OtherException ''token request failed''), example_service, [GetAccessToken])"
    using parts [where cls = raising_class and utcnow = 100 and headers = "[]" and auth = "AuthStr ''Token''",
        THEN conjunct2, THEN conjunct1, rule_format,
        OF conjI [OF example_make_request [of "''GET''" "''json''" "''json''"]]] o
    by simp
  have b: "truthy (base_url (example_service\<lparr>base_url := Some ''api.example.com''\<rparr>))"
    by simp
  have m: "make_request example_lib (the (base_url (example_service\<lparr>base_url := Some ''api.example.com''\<rparr>)))
      ''GET'' (Some ''/ping'') [] PyNone ''json'' ''json'' = Inl (ValueError ''unknown url type'')"
    by (simp add: make_request_def build_url_def rstrip_slash_def lstrip_slash_def example_lib_def)
  have 6: "http example_lib (example_class None) 50 (example_service\<lparr>base_url := Some ''api.example.com''\<rparr>)
       ''GET'' (Some ''/ping'') [] PyNone [] (AuthBool False) ''json'' ''json'' =
     (Inl (ValueError ''unknown url type''),
      example_service\<lparr>base_url := Some ''api.example.com''\<rparr>, [])"
    using http_outcome_as_values [OF b, THEN conjunct1, rule_format, OF m] .
  from 1 2 3 4 5 6 show ?thesis
    by simp
qed

end
